theory Spec2Isabelle
  imports Main
begin

section \<open>react-netlify-identity: the identity hook of \<^verbatim>\<open>src/index2.tsx\<close>\<close>

text \<open>
  The hook \<^verbatim>\<open>useNetlifyIdentity\<close> binds the gotrue-js client to React state. The
  embedding keeps every mutable thing of one hook instance in a record \<open>world\<close> that is
  passed through each operation: the three \<^verbatim>\<open>useState\<close> cells, the value captured by
  the closures that are memoised with an empty dependency list, the page location, and a
  trace of every call that leaves the hook (backend client, auth-change listener, network
  fetch). A promise is modelled by its settled value: \<open>Inl\<close> a rejection, \<open>Inr\<close> the
  resolved value; an operation returns an \<open>outcome\<close> that keeps a synchronous
  \<^verbatim>\<open>throw\<close> apart from a rejected promise.
\<close>

subsection \<open>Data of the backend client (gotrue-js, an external library)\<close>

text \<open>
  Of a gotrue \<^verbatim>\<open>User\<close> the hook reads \<^verbatim>\<open>confirmed_at\<close>, \<^verbatim>\<open>token\<close> (here
  \<open>user_token\<close>) and \<^verbatim>\<open>token.access_token\<close>; a field that JSON left out is \<open>None\<close>.
  \<open>user_id\<close> tells two users apart.
\<close>

record Token =
  access_token :: "string option"

record User =
  user_id :: string
  confirmed_at :: "string option"
  user_token :: "Token option"

record External =
  bitbucket :: bool
  email :: bool
  facebook :: bool
  github :: bool
  gitlab :: bool
  google :: bool

record Settings =
  autoconfirm :: bool
  disable_signup :: bool
  external :: External

definition defaultSettings :: Settings where
  "defaultSettings =
     \<lparr>autoconfirm = False,
      disable_signup = False,
      external = \<lparr>bitbucket = False, email = True, facebook = False,
                  github = False, gitlab = False, google = False\<rparr>\<rparr>"

text \<open>
  \<open>Error m\<close> is \<^verbatim>\<open>new Error(m)\<close> for the two messages of \<^verbatim>\<open>errors\<close>; \<open>InvalidURL url\<close>
  is the error of the provider, whose message quotes the URL (a JavaScript string, held as
  its UTF-16 code units); \<open>Rejection\<close> is a rejection made by the backend client or the
  network.
\<close>

datatype error = Error string | InvalidURL "int list" | Rejection string

definition noTokenFound :: string where
  "noTokenFound = ''no user token found''"

definition noUserFound :: string where
  "noUserFound = ''No current user found - are you logged in?''"

datatype flow_type = confirmation | invite | recovery | email_change | access

datatype param_error = access_denied

record TokenParam =
  token :: "string option"
  type :: "flow_type option"
  error :: "param_error option"
  status :: "nat option"

definition defaultParam :: TokenParam where
  "defaultParam = \<lparr>token = None, type = None, error = None, status = None\<rparr>"

text \<open>JavaScript truthiness of a string that may be undefined: the empty string is falsy.\<close>

definition truthy :: "string option \<Rightarrow> bool" where
  "truthy s = (case s of None \<Rightarrow> False | Some v \<Rightarrow> v \<noteq> [])"

subsection \<open>The collaborators\<close>

text \<open>
  The gotrue client and the network are outside the repository: they are parameters, each
  method given by the value its promise settles to. The methods of a \<^verbatim>\<open>User\<close> object
  (\<^verbatim>\<open>update\<close>, \<^verbatim>\<open>jwt\<close>, \<^verbatim>\<open>logout\<close>) take the user as first argument.
  \<open>requestRecovery\<close> is the client's \<^verbatim>\<open>requestPasswordRecovery\<close> and \<open>fetchSettings\<close> its
  \<^verbatim>\<open>settings\<close>, renamed apart from the operation and the cell of the hook that bear
  these names. \<open>confirm\<close> and \<open>createUser\<close> are the two entry points the router is to
  call: the confirmation of a token, and the making of a user from the parameters of a
  fragment.
\<close>

record GoTrue =
  currentUser :: "User option"
  signup :: "string \<Rightarrow> string \<Rightarrow> string \<Rightarrow> error + User"
  login :: "string \<Rightarrow> string \<Rightarrow> bool \<Rightarrow> error + User"
  requestRecovery :: "string \<Rightarrow> error + unit"
  recover :: "string \<Rightarrow> bool option \<Rightarrow> error + User"
  confirm :: "string \<Rightarrow> error + User"
  createUser :: "(string \<times> string) list \<Rightarrow> error + User"
  fetchSettings :: "error + Settings"
  update :: "User \<Rightarrow> string \<Rightarrow> error + User"
  jwt :: "User \<Rightarrow> error + string"
  logout :: "User \<Rightarrow> error + unit"

text \<open>
  The second argument of \<^verbatim>\<open>fetch\<close>, with its properties \<^verbatim>\<open>method\<close> (here
  \<open>req_method\<close>), \<^verbatim>\<open>headers\<close> and \<^verbatim>\<open>body\<close>; an own property that is not there is
  \<open>None\<close>. A headers object is the list of its names and values.
\<close>

record request =
  req_method :: "string option"
  headers :: "(string \<times> string) list option"
  body :: "string option"

datatype fetched = Json string | Response string

record Network =
  fetch :: "string \<Rightarrow> request \<Rightarrow> error + string"
  json :: "string \<Rightarrow> error + string"

datatype call =
    Signup string string string
  | Login string string bool
  | RequestPasswordRecovery string
  | Recover string "bool option"
  | Confirm string
  | CreateUser "(string \<times> string) list"
  | FetchSettings
  | Update User string
  | Jwt User
  | Logout User

datatype event =
    Backend call
  | AuthChange "User option"
  | NetworkFetch string request
  | Unhandled error

datatype 'a outcome = Thrown error | Rejected error | Resolved 'a

subsection \<open>The state of one hook instance\<close>

record location =
  pathname :: string
  query :: "(string \<times> string) list"
  fragment :: "(string \<times> string) list"

text \<open>
  \<open>user\<close>, \<open>param\<close> and \<open>settings\<close> are the \<^verbatim>\<open>useState\<close> cells. \<open>first_user\<close> is the
  value of \<^verbatim>\<open>user\<close> in the first render: \<^verbatim>\<open>authedFetch\<close> is built by
  \<^verbatim>\<open>useMemo(..., [])\<close>, so its four fetchers are the closures of that render for good.
  The callbacks \<^verbatim>\<open>updateUser\<close>, \<^verbatim>\<open>getFreshJWT\<close> and \<^verbatim>\<open>logoutUser\<close> list
  \<^verbatim>\<open>user\<close> as dependency and read the cell of the render they are taken from.
\<close>

record world =
  user :: "User option"
  param :: TokenParam
  settings :: Settings
  first_user :: "User option"
  page :: location
  trace :: "event list"

definition emit :: "event \<Rightarrow> world \<Rightarrow> world" where
  "emit e w = w\<lparr>trace := trace w @ [e]\<rparr>"

text \<open>The raw setter of the \<^verbatim>\<open>user\<close> cell, exposed as \<^verbatim>\<open>setUser\<close>.\<close>

definition setUser :: "User option \<Rightarrow> world \<Rightarrow> world" where
  "setUser u w = w\<lparr>user := u\<rparr>"

text \<open>
  \<^verbatim>\<open>_setUser\<close> (lines 153-157): set the cell, call \<^verbatim>\<open>onAuthChange\<close>, return the value.
\<close>

definition underscore_setUser :: "User option \<Rightarrow> world \<Rightarrow> User option \<times> world" where
  "underscore_setUser u w = (u, emit (AuthChange u) (setUser u w))"

text \<open>
  \<^verbatim>\<open>p.then(k)\<close> for a promise \<open>p\<close> that has settled: a rejection skips the callback.
\<close>

definition then_do ::
  "error + 'a \<Rightarrow> ('a \<Rightarrow> world \<Rightarrow> 'b \<times> world) \<Rightarrow> world \<Rightarrow> 'b outcome \<times> world" where
  "then_do p k w =
     (case p of
        Inl e \<Rightarrow> (Rejected e, w)
      | Inr v \<Rightarrow> (case k v w of (r, w') \<Rightarrow> (Resolved r, w')))"

subsection \<open>Operations (lines 193-237)\<close>

definition signupUser ::
  "GoTrue \<Rightarrow> string \<Rightarrow> string \<Rightarrow> string \<Rightarrow> world \<Rightarrow> User option outcome \<times> world" where
  "signupUser gt em pw data w =
     then_do (signup gt em pw data) (\<lambda>u. underscore_setUser (Some u))
       (emit (Backend (Signup em pw data)) w)"

definition loginUser ::
  "GoTrue \<Rightarrow> string \<Rightarrow> string \<Rightarrow> bool \<Rightarrow> world \<Rightarrow> User option outcome \<times> world" where
  "loginUser gt em pw remember w =
     then_do (login gt em pw remember) (\<lambda>u. underscore_setUser (Some u))
       (emit (Backend (Login em pw remember)) w)"

definition requestPasswordRecovery ::
  "GoTrue \<Rightarrow> string \<Rightarrow> world \<Rightarrow> unit outcome \<times> world" where
  "requestPasswordRecovery gt em w =
     then_do (requestRecovery gt em) (\<lambda>v w'. (v, w'))
       (emit (Backend (RequestPasswordRecovery em)) w)"

definition recoverAccount ::
  "GoTrue \<Rightarrow> string \<Rightarrow> bool option \<Rightarrow> world \<Rightarrow> User outcome \<times> world" where
  "recoverAccount gt tok remember w =
     then_do (recover gt tok remember) (\<lambda>u w'. (u, w'))
       (emit (Backend (Recover tok remember)) w)"

definition updateUser ::
  "GoTrue \<Rightarrow> string \<Rightarrow> world \<Rightarrow> User option outcome \<times> world" where
  "updateUser gt changes w =
     (case user w of
        None \<Rightarrow> (Thrown (Error noUserFound), w)
      | Some u \<Rightarrow>
          then_do (update gt u changes) (\<lambda>u'. underscore_setUser (Some u'))
            (emit (Backend (Update u changes)) w))"

definition getFreshJWT :: "GoTrue \<Rightarrow> world \<Rightarrow> string outcome \<times> world" where
  "getFreshJWT gt w =
     (case user w of
        None \<Rightarrow> (Thrown (Error noUserFound), w)
      | Some u \<Rightarrow>
          then_do (jwt gt u) (\<lambda>v w'. (v, w')) (emit (Backend (Jwt u)) w))"

definition logoutUser :: "GoTrue \<Rightarrow> world \<Rightarrow> User option outcome \<times> world" where
  "logoutUser gt w =
     (case user w of
        None \<Rightarrow> (Thrown (Error noUserFound), w)
      | Some u \<Rightarrow>
          then_do (logout gt u) (\<lambda>_. underscore_setUser None)
            (emit (Backend (Logout u)) w))"

subsection \<open>The derived flags of the hook API (lines 273-274)\<close>

definition isLoggedIn :: "world \<Rightarrow> bool" where
  "isLoggedIn w = (user w \<noteq> None)"

definition isConfirmedUser :: "world \<Rightarrow> bool" where
  "isConfirmedUser w =
     (case user w of None \<Rightarrow> False | Some u \<Rightarrow> truthy (confirmed_at u))"

subsection \<open>Authenticated fetch (lines 239-266)\<close>

definition defaultObj :: "string \<Rightarrow> request" where
  "defaultObj tok =
     \<lparr>req_method = None,
      headers = Some [(''Accept'', ''application/json''),
                      (''Content-Type'', ''application/json''),
                      (''Authorization'', ''Bearer '' @ tok)],
      body = None\<rparr>"

text \<open>
  \<^verbatim>\<open>Object.assign(target, source)\<close>: every own property of the source replaces the
  property of that name in the target, whole; nested objects are not merged.
\<close>

definition Object_assign :: "request \<Rightarrow> request \<Rightarrow> request" where
  "Object_assign target source =
     \<lparr>req_method = (case req_method source of None \<Rightarrow> req_method target | Some m \<Rightarrow> Some m),
      headers = (case headers source of None \<Rightarrow> headers target | Some h \<Rightarrow> Some h),
      body = (case body source of None \<Rightarrow> body target | Some b \<Rightarrow> Some b)\<rparr>"

definition header :: "request \<Rightarrow> string \<Rightarrow> string option" where
  "header r k = (case headers r of None \<Rightarrow> None | Some h \<Rightarrow> map_of h k)"

definition finalObj :: "string \<Rightarrow> string \<Rightarrow> request \<Rightarrow> request" where
  "finalObj tok meth obj =
     Object_assign
       (Object_assign (defaultObj tok) \<lparr>req_method = Some meth, headers = None, body = None\<rparr>)
       obj"

text \<open>
  \<open>usr\<close> is the variable \<^verbatim>\<open>user\<close> of the render in which the closure was made.
\<close>

definition genericAuthedFetch ::
  "Network \<Rightarrow> User option \<Rightarrow> string \<Rightarrow> string \<Rightarrow> request \<Rightarrow> world
     \<Rightarrow> fetched outcome \<times> world" where
  "genericAuthedFetch net usr meth endpoint obj w =
     (case usr of
        None \<Rightarrow> (Thrown (Error noTokenFound), w)
      | Some u \<Rightarrow>
          (case user_token u of
             None \<Rightarrow> (Thrown (Error noTokenFound), w)
           | Some t \<Rightarrow>
               (case access_token t of
                  None \<Rightarrow> (Thrown (Error noTokenFound), w)
                | Some tok \<Rightarrow>
                    if tok = [] then (Thrown (Error noTokenFound), w)
                    else
                      (case fetch net endpoint (finalObj tok meth obj) of
                         Inl e \<Rightarrow>
                           (Rejected e, emit (NetworkFetch endpoint (finalObj tok meth obj)) w)
                       | Inr res \<Rightarrow>
                           (if header (finalObj tok meth obj) ''Content-Type''
                                 = Some ''application/json''
                            then (case json net res of
                                    Inl e \<Rightarrow> Rejected e
                                  | Inr j \<Rightarrow> Resolved (Json j))
                            else Resolved (Response res),
                            emit (NetworkFetch endpoint (finalObj tok meth obj)) w)))))"

text \<open>
  The four members of \<^verbatim>\<open>authedFetch\<close>. The memo has no dependencies, so each member is
  \<^verbatim>\<open>genericAuthedFetch(method)\<close> of the first render and sees that render's user.
\<close>

definition authedFetch_get ::
  "Network \<Rightarrow> string \<Rightarrow> request \<Rightarrow> world \<Rightarrow> fetched outcome \<times> world" where
  "authedFetch_get net endpoint obj w =
     genericAuthedFetch net (first_user w) ''GET'' endpoint obj w"

definition authedFetch_post ::
  "Network \<Rightarrow> string \<Rightarrow> request \<Rightarrow> world \<Rightarrow> fetched outcome \<times> world" where
  "authedFetch_post net endpoint obj w =
     genericAuthedFetch net (first_user w) ''POST'' endpoint obj w"

definition authedFetch_put ::
  "Network \<Rightarrow> string \<Rightarrow> request \<Rightarrow> world \<Rightarrow> fetched outcome \<times> world" where
  "authedFetch_put net endpoint obj w =
     genericAuthedFetch net (first_user w) ''PUT'' endpoint obj w"

definition authedFetch_delete ::
  "Network \<Rightarrow> string \<Rightarrow> request \<Rightarrow> world \<Rightarrow> fetched outcome \<times> world" where
  "authedFetch_delete net endpoint obj w =
     genericAuthedFetch net (first_user w) ''DELETE'' endpoint obj w"

subsection \<open>The parser and the router of \<^verbatim>\<open>./runRoutes\<close>\<close>

text \<open>
  Modelled from the spec: the names of the flow types as they stand in a \<^verbatim>\<open>type\<close>
  marker. The module \<^verbatim>\<open>./runRoutes\<close> is imported by the hook and is not among the
  sources; the five names are those of section 3 of the specification and of the
  \<^verbatim>\<open>TokenParam\<close> interface.
\<close>

definition flow_of_name :: "string \<Rightarrow> flow_type option" where
  "flow_of_name s =
     (if s = ''confirmation'' then Some confirmation
      else if s = ''invite'' then Some invite
      else if s = ''recovery'' then Some recovery
      else if s = ''email_change'' then Some email_change
      else if s = ''access'' then Some access
      else None)"

text \<open>
  Modelled from the spec: the flow marker of section 4.1, for the parser of
  \<^verbatim>\<open>./runRoutes\<close>, which is not among the sources. The specification fixes no syntax
  below the level of parameters, so the query string and the fragment of a location are
  held as their lists of key/value parameters. A flow marker is a fragment with a
  \<^verbatim>\<open>type\<close> parameter naming a flow type and an \<^verbatim>\<open>access_token\<close> parameter.
\<close>

definition flow_marker :: "location \<Rightarrow> bool" where
  "flow_marker loc =
     ((\<exists>v \<in> set (fragment loc). fst v = ''type'' \<and> flow_of_name (snd v) \<noteq> None)
      \<and> (\<exists>v \<in> set (fragment loc). fst v = ''access_token''))"

text \<open>
  Modelled from the spec: the error marker of section 4.1, for the parser of
  \<^verbatim>\<open>./runRoutes\<close> (not among the sources): the query parameter
  \<^verbatim>\<open>error=access_denied\<close>.
\<close>

definition error_marker :: "location \<Rightarrow> bool" where
  "error_marker loc = ((''error'', ''access_denied'') \<in> set (query loc))"

text \<open>
  Modelled from the spec: the edge case of section 4.1, for the parser of
  \<^verbatim>\<open>./runRoutes\<close> (not among the sources): of several \<^verbatim>\<open>type\<close> parameters the
  first that names a flow type wins.
\<close>

definition first_flow :: "(string \<times> string) list \<Rightarrow> flow_type option" where
  "first_flow ps =
     (case List.map_filter (\<lambda>(k, v). if k = ''type'' then flow_of_name v else None) ps of
        [] \<Rightarrow> None
      | t # _ \<Rightarrow> Some t)"

text \<open>
  Modelled from the spec: the URL/token parser of section 4.1 (in \<^verbatim>\<open>./runRoutes\<close>, not
  among the sources). Section 8 gives the access-denied result for every location with
  the error marker, so that marker is looked for first; section 9 leaves open what a
  location with both markers yields. The only status a \<^verbatim>\<open>TokenParam\<close> can hold is 403.
  Without the error marker, a fragment with a flow type and an \<^verbatim>\<open>access_token\<close> gives
  both; anything else gives the default.
\<close>

definition parse_location :: "location \<Rightarrow> TokenParam" where
  "parse_location loc =
     (if error_marker loc
      then defaultParam\<lparr>error := Some access_denied, status := Some 403\<rparr>
      else
        (case first_flow (fragment loc) of
           None \<Rightarrow> defaultParam
         | Some t \<Rightarrow>
             (case map_of (fragment loc) ''access_token'' of
                None \<Rightarrow> defaultParam
              | Some tok \<Rightarrow> defaultParam\<lparr>token := Some tok, type := Some t\<rparr>)))"

text \<open>
  Modelled from the spec: step 3 of section 4.2, for the router of \<^verbatim>\<open>./runRoutes\<close>
  (not among the sources): the parameters the parser consumed are taken out of the
  visible location.
\<close>

definition strip_consumed :: "TokenParam \<Rightarrow> location \<Rightarrow> location" where
  "strip_consumed p loc =
     (if error p \<noteq> None
      then loc\<lparr>query :=
                 filter (\<lambda>kv. fst kv \<noteq> ''error'' \<and> fst kv \<noteq> ''error_description'')
                   (query loc)\<rparr>
      else if type p \<noteq> None
      then loc\<lparr>fragment :=
                 filter (\<lambda>kv. fst kv \<noteq> ''type'' \<and> fst kv \<noteq> ''access_token'')
                   (fragment loc)\<rparr>
      else loc)"

text \<open>
  Modelled from the spec: step 2 of section 4.2, for the router of \<^verbatim>\<open>./runRoutes\<close>
  (not among the sources). Confirmation, invite and email change go to the backend's
  token-confirmation entry point and the user it yields to the state-update callback;
  recovery calls nothing; access lets the backend read the fragment; the access-denied
  error calls nothing. A rejection is passed on and leaves the state as it was.
\<close>

definition dispatch ::
  "GoTrue \<Rightarrow> (User option \<Rightarrow> world \<Rightarrow> User option \<times> world) \<Rightarrow> location \<Rightarrow> TokenParam
     \<Rightarrow> world \<Rightarrow> world" where
  "dispatch gt cb loc p w =
     (case type p of
        None \<Rightarrow> w
      | Some t \<Rightarrow>
          (case token p of
             None \<Rightarrow> w
           | Some tok \<Rightarrow>
               if t = recovery then w
               else if t = access
               then (case createUser gt (fragment loc) of
                       Inl e \<Rightarrow> emit (Unhandled e) (emit (Backend (CreateUser (fragment loc))) w)
                     | Inr u \<Rightarrow> snd (cb (Some u) (emit (Backend (CreateUser (fragment loc))) w)))
               else (case confirm gt tok of
                       Inl e \<Rightarrow> emit (Unhandled e) (emit (Backend (Confirm tok)) w)
                     | Inr u \<Rightarrow> snd (cb (Some u) (emit (Backend (Confirm tok)) w)))))"

text \<open>
  Modelled from the spec: the flow router of section 4.2, \<^verbatim>\<open>runRoutes\<close> of
  \<^verbatim>\<open>./runRoutes\<close> (not among the sources): parse the visible location, dispatch, strip
  the consumed parameters whatever the branch, return the \<^verbatim>\<open>TokenParam\<close>.
\<close>

definition runRoutes ::
  "GoTrue \<Rightarrow> (User option \<Rightarrow> world \<Rightarrow> User option \<times> world) \<Rightarrow> world
     \<Rightarrow> TokenParam \<times> world" where
  "runRoutes gt cb w =
     (let p = parse_location (page w);
          w' = dispatch gt cb (page w) p w
      in (p, w'\<lparr>page := strip_consumed p (page w)\<rparr>))"

subsection \<open>First render and the two effects (lines 139-173)\<close>

definition first_render :: "GoTrue \<Rightarrow> location \<Rightarrow> world" where
  "first_render gt loc =
     \<lparr>user = currentUser gt, param = defaultParam, settings = defaultSettings,
      first_user = currentUser gt, page = loc, trace = []\<rparr>"

definition routes_effect :: "GoTrue \<Rightarrow> bool \<Rightarrow> world \<Rightarrow> world" where
  "routes_effect gt enableRunRoutes w =
     (if enableRunRoutes
      then (case runRoutes gt underscore_setUser w of
              (p, w') \<Rightarrow> if truthy (token p) \<or> error p \<noteq> None then w'\<lparr>param := p\<rparr> else w')
      else w)"

text \<open>
  The settings effect, \<^verbatim>\<open>_settings().then(setSettings)\<close>: there is no \<^verbatim>\<open>catch\<close>, so a
  rejection stays unhandled and the cell keeps its value.
\<close>

definition settings_effect :: "GoTrue \<Rightarrow> world \<Rightarrow> world" where
  "settings_effect gt w =
     (case fetchSettings gt of
        Inl e \<Rightarrow> emit (Unhandled e) (emit (Backend FetchSettings) w)
      | Inr s \<Rightarrow> (emit (Backend FetchSettings) w)\<lparr>settings := s\<rparr>)"

text \<open>
  The hook after its first render and its two effects, each effect taken with the promise
  it makes already settled. At run time the second effect makes its call before the
  promise of the first settles, so across the two effects the trace can show the
  listener call of the router ahead of the settings call; within one effect the order is
  that of the code.
\<close>

definition useNetlifyIdentity :: "GoTrue \<Rightarrow> bool \<Rightarrow> location \<Rightarrow> world" where
  "useNetlifyIdentity gt enableRunRoutes loc =
     settings_effect gt (routes_effect gt enableRunRoutes (first_render gt loc))"

subsection \<open>\<^verbatim>\<open>validateUrl\<close> (lines 299-303)\<close>

text \<open>
  The pattern of \<^verbatim>\<open>validateUrl\<close> is kept as a syntax tree, one constructor for each
  construct it uses: a literal character, a class \<^verbatim>\<open>[...]\<close> given by its ranges,
  \<^verbatim>\<open>\S\<close>, \<^verbatim>\<open>\d\<close>, the empty pattern, sequence, alternative \<^verbatim>\<open>|\<close>, \<^verbatim>\<open>*\<close> and
  the negative lookahead \<^verbatim>\<open>(?!...)\<close>. A string is the list of its UTF-16 code units.
\<close>

datatype regex =
    Lit int
  | Class "(int \<times> int) list"
  | NonSpace
  | Digit
  | Empty
  | Seq regex regex
  | Alt regex regex
  | Star regex
  | NotAhead regex

text \<open>
  The flag \<^verbatim>\<open>i\<close>: two code units match when their canonical forms agree. Outside
  \<^verbatim>\<open>a-z\<close> no code unit is mapped onto an ASCII letter, and the classes of the pattern
  hold every code unit from 161 on, so only the ASCII letters are folded.
\<close>

definition canonicalize :: "int \<Rightarrow> int" where
  "canonicalize x = (if 97 \<le> x \<and> x \<le> 122 then x - 32 else x)"

definition in_ranges :: "(int \<times> int) list \<Rightarrow> int \<Rightarrow> bool" where
  "in_ranges rs x = list_ex (\<lambda>r. fst r \<le> x \<and> x \<le> snd r) rs"

definition in_class :: "(int \<times> int) list \<Rightarrow> int \<Rightarrow> bool" where
  "in_class rs x =
     (in_ranges rs x
      \<or> (65 \<le> x \<and> x \<le> 90 \<and> in_ranges rs (x + 32))
      \<or> (97 \<le> x \<and> x \<le> 122 \<and> in_ranges rs (x - 32)))"

definition white_space :: "int \<Rightarrow> bool" where
  "white_space x =
     in_ranges [(9, 13), (32, 32), (160, 160), (5760, 5760), (8192, 8202),
                (8232, 8233), (8239, 8239), (8287, 8287), (12288, 12288), (65279, 65279)] x"

text \<open>
  \<open>rmatch r s\<close> lists what can remain of \<open>s\<close> after a match of \<open>r\<close> at its start. A
  lookahead reads the rest of the input and consumes nothing; an iteration of \<^verbatim>\<open>*\<close>
  that consumes nothing is dropped, as in JavaScript. The pattern is anchored by
  \<^verbatim>\<open>^\<close> and \<^verbatim>\<open>$\<close>: \<^verbatim>\<open>test\<close> holds when some match leaves nothing.
\<close>

definition step :: "(int \<Rightarrow> bool) \<Rightarrow> int list \<Rightarrow> int list list" where
  "step P s = (case s of [] \<Rightarrow> [] | x # xs \<Rightarrow> if P x then [xs] else [])"

fun rmatch :: "regex \<Rightarrow> int list \<Rightarrow> int list list" where
  "rmatch (Lit c) s = step (\<lambda>x. canonicalize x = canonicalize c) s"
| "rmatch (Class rs) s = step (in_class rs) s"
| "rmatch NonSpace s = step (\<lambda>x. \<not> white_space x) s"
| "rmatch Digit s = step (\<lambda>x. 48 \<le> x \<and> x \<le> 57) s"
| "rmatch Empty s = [s]"
| "rmatch (Seq a b) s = remdups (concat (map (rmatch b) (rmatch a s)))"
| "rmatch (Alt a b) s = remdups (rmatch a s @ rmatch b s)"
| "rmatch (Star a) s =
     remdups (s # concat (map (rmatch (Star a))
                            (filter (\<lambda>t. length t < length s) (rmatch a s))))"
| "rmatch (NotAhead a) s = (if rmatch a s = [] then [s] else [])"

definition test :: "regex \<Rightarrow> int list \<Rightarrow> bool" where
  "test r s = ([] \<in> set (rmatch r s))"

text \<open>
  What a pattern means, apart from any way of running it: the relation between an input
  and what a match at its start can leave. \<open>rmatch\<close> is shown below to list exactly the
  strings this relation allows.
\<close>

primrec sem :: "regex \<Rightarrow> (int list \<times> int list) set" where
  "sem (Lit c) = {(x # xs, xs) | x xs. canonicalize x = canonicalize c}"
| "sem (Class rs) = {(x # xs, xs) | x xs. in_class rs x}"
| "sem NonSpace = {(x # xs, xs) | x xs. \<not> white_space x}"
| "sem Digit = {(x # xs, xs) | x xs. 48 \<le> x \<and> x \<le> 57}"
| "sem Empty = Id"
| "sem (Seq a b) = sem a O sem b"
| "sem (Alt a b) = sem a \<union> sem b"
| "sem (Star a) = (sem a)\<^sup>*"
| "sem (NotAhead a) = {(s, s) | s. s \<notin> Domain (sem a)}"

text \<open>
  The derived constructs: \<^verbatim>\<open>r?\<close>, \<^verbatim>\<open>r+\<close>, a sequence, alternatives, \<^verbatim>\<open>r{n}\<close>,
  \<^verbatim>\<open>r{0,n}\<close>, \<^verbatim>\<open>r{m,n}\<close>, \<^verbatim>\<open>r{m,}\<close>, and literals written as characters.
\<close>

definition Opt :: "regex \<Rightarrow> regex" where
  "Opt r = Alt r Empty"

definition Plus :: "regex \<Rightarrow> regex" where
  "Plus r = Seq r (Star r)"

definition Seqs :: "regex list \<Rightarrow> regex" where
  "Seqs rs = foldr Seq rs Empty"

definition Alts :: "regex \<Rightarrow> regex list \<Rightarrow> regex" where
  "Alts r rs = foldl Alt r rs"

definition Times :: "nat \<Rightarrow> regex \<Rightarrow> regex" where
  "Times n r = Seqs (replicate n r)"

definition UpTo :: "nat \<Rightarrow> regex \<Rightarrow> regex" where
  "UpTo n r = foldr (\<lambda>a b. Opt (Seq a b)) (replicate n r) Empty"

definition Between :: "nat \<Rightarrow> nat \<Rightarrow> regex \<Rightarrow> regex" where
  "Between m n r = Seq (Times m r) (UpTo (n - m) r)"

definition AtLeast :: "nat \<Rightarrow> regex \<Rightarrow> regex" where
  "AtLeast m r = Seq (Times m r) (Star r)"

definition js :: "string \<Rightarrow> int list" where
  "js s = map of_char s"

definition ch :: "char \<Rightarrow> regex" where
  "ch c = Lit (of_char c)"

definition str :: "string \<Rightarrow> regex" where
  "str s = Seqs (map ch s)"

definition rng :: "char \<Rightarrow> char \<Rightarrow> int \<times> int" where
  "rng a b = (of_char a, of_char b)"

text \<open>
  The pattern of line 300, piece by piece: \<open>octet_dot\<close> is \<^verbatim>\<open>\.\d{1,3}\<close>, \<open>alnum\<close> is
  \<^verbatim>\<open>[a-z\u00a1-\uffff0-9]\<close>, \<open>alpha\<close> is \<^verbatim>\<open>[a-z\u00a1-\uffff]\<close>, \<open>ip_host\<close> and
  \<open>name_host\<close> are the two alternatives of the host group.
\<close>

definition octet_dot :: regex where
  "octet_dot = Seq (ch CHR ''.'') (Between 1 3 Digit)"

definition alnum :: regex where
  "alnum = Class [rng CHR ''a'' CHR ''z'', (161, 65535), rng CHR ''0'' CHR ''9'']"

definition alpha :: regex where
  "alpha = Class [rng CHR ''a'' CHR ''z'', (161, 65535)]"

definition ip_host :: regex where
  "ip_host =
     Seqs
      [NotAhead (Seqs [Alts (str ''10'') [str ''127''], Times 3 octet_dot]),
       NotAhead (Seqs [Alts (str ''169.254'') [str ''192.168''], Times 2 octet_dot]),
       NotAhead (Seqs [str ''172.'',
                       Alts (Seq (ch CHR ''1'') (Class [rng CHR ''6'' CHR ''9'']))
                            [Seq (ch CHR ''2'') Digit,
                             Seq (ch CHR ''3'') (Class [rng CHR ''0'' CHR ''1''])],
                       Times 2 octet_dot]),
       Alts (Seq (Class [rng CHR ''1'' CHR ''9'']) (Opt Digit))
            [Seqs [ch CHR ''1'', Digit, Digit],
             Seqs [ch CHR ''2'', Class [rng CHR ''0'' CHR ''0'', rng CHR ''1'' CHR ''1''], Digit],
             Seqs [str ''22'', Class [rng CHR ''0'' CHR ''3'']]],
       Times 2
         (Seq (ch CHR ''.'')
            (Alts (Seq (Opt (ch CHR ''1'')) (Between 1 2 Digit))
                  [Seqs [ch CHR ''2'', Class [rng CHR ''0'' CHR ''4''], Digit],
                   Seqs [str ''25'', Class [rng CHR ''0'' CHR ''5'']]])),
       Seq (ch CHR ''.'')
         (Alts (Seq (Class [rng CHR ''1'' CHR ''9'']) (Opt Digit))
               [Seqs [ch CHR ''1'', Digit, Digit],
                Seqs [ch CHR ''2'', Class [rng CHR ''0'' CHR ''4''], Digit],
                Seqs [str ''25'', Class [rng CHR ''0'' CHR ''4'']]])]"

definition name_host :: regex where
  "name_host =
     Seqs
      [Seq (Star (Seq alnum (Star (ch CHR ''-'')))) (Plus alnum),
       Star (Seqs [ch CHR ''.'', Star (Seq alnum (Star (ch CHR ''-''))), Plus alnum]),
       Seq (ch CHR ''.'') (AtLeast 2 alpha)]"

definition url_pattern :: regex where
  "url_pattern =
     Seqs
      [Seq (Opt (Seq (Alts (Seq (str ''http'') (Opt (ch CHR ''s''))) [str ''ftp''])
                     (ch CHR '':'')))
           (str ''//''),
       Opt (Seqs [Plus NonSpace, Opt (Seq (ch CHR '':'') (Star NonSpace)), ch CHR ''@'']),
       Alt ip_host name_host,
       Opt (Seq (ch CHR '':'') (Between 2 5 Digit)),
       Opt (Seq (Class [rng CHR ''/'' CHR ''/'', rng CHR ''?'' CHR ''?'', rng CHR ''#'' CHR ''#''])
                (Star NonSpace))]"

definition validateUrl :: "int list \<Rightarrow> bool" where
  "validateUrl v = test url_pattern v"

subsection \<open>The provider (lines 109-131)\<close>

text \<open>
  \<open>new_GoTrue\<close> is the constructor of the client, given its \<^verbatim>\<open>APIUrl\<close>. The provider
  calls the hook with the default \<^verbatim>\<open>enableRunRoutes = true\<close>; an error leaves no state.
\<close>

definition IdentityContextProvider ::
  "(int list \<Rightarrow> GoTrue) \<Rightarrow> int list \<Rightarrow> location \<Rightarrow> error + world" where
  "IdentityContextProvider new_GoTrue url loc =
     (if url = [] \<or> \<not> validateUrl url then Inl (InvalidURL url)
      else Inr (useNetlifyIdentity (new_GoTrue (url @ js ''/.netlify/identity'')) True loc))"

subsection \<open>Notions used to state the properties\<close>

text \<open>The access token of a user, when the user, its token and a non-empty access token are there.\<close>

definition live_token :: "User option \<Rightarrow> string option" where
  "live_token usr =
     (case usr of
        None \<Rightarrow> None
      | Some u \<Rightarrow>
          (case user_token u of
             None \<Rightarrow> None
           | Some t \<Rightarrow>
               (case access_token t of
                  None \<Rightarrow> None
                | Some tok \<Rightarrow> if tok = [] then None else Some tok)))"

fun is_confirm :: "event \<Rightarrow> bool" where
  "is_confirm (Backend (Confirm t)) = True"
| "is_confirm e = False"

definition confirm_calls :: "world \<Rightarrow> nat" where
  "confirm_calls w = length (filter is_confirm (trace w))"

text \<open>
  The specification's words "syntactically valid absolute URL", read with RFC 3986: a
  scheme, a colon, \<^verbatim>\<open>//\<close>, an authority of unreserved characters, sub-delimiters,
  \<^verbatim>\<open>:\<close>, \<^verbatim>\<open>@\<close> and \<^verbatim>\<open>%\<close>, then path, query and fragment characters. It is the
  notion the pattern of the code is compared with, and no part of the code.
\<close>

definition uri_char :: regex where
  "uri_char =
     Class [rng CHR ''a'' CHR ''z'', rng CHR ''0'' CHR ''9'', rng CHR ''-'' CHR ''.'',
            rng CHR ''_'' CHR ''_'', rng CHR ''~'' CHR ''~'', rng CHR ''!'' CHR ''!'',
            rng CHR ''$'' CHR ''$'', rng CHR ''&'' CHR '','', rng CHR '';'' CHR '';'',
            rng CHR ''='' CHR ''='', rng CHR '':'' CHR '':'', rng CHR ''@'' CHR ''@'',
            rng CHR ''%'' CHR ''%'']"

definition spec_absolute_URL :: "int list \<Rightarrow> bool" where
  "spec_absolute_URL v =
     test
       (Seqs
         [Class [rng CHR ''a'' CHR ''z''],
          Star (Class [rng CHR ''a'' CHR ''z'', rng CHR ''0'' CHR ''9'', rng CHR ''+'' CHR ''+'',
                       rng CHR ''-'' CHR ''.'']),
          str ''://'',
          Plus uri_char,
          Star (Alt uri_char (Class [rng CHR ''/'' CHR ''/'', rng CHR ''?'' CHR ''?''])),
          Opt (Seq (ch CHR ''#'')
                 (Star (Alt uri_char (Class [rng CHR ''/'' CHR ''/'', rng CHR ''?'' CHR ''?'']))))])
       v"

subsection \<open>Concrete inputs\<close>

definition alice :: User where
  "alice =
     \<lparr>user_id = ''alice@example.com'', confirmed_at = Some ''2019-04-28T21:12:01Z'',
      user_token = Some \<lparr>access_token = Some ''abc''\<rparr>\<rparr>"

text \<open>A client with no persisted session whose every call resolves, and one that rejects.\<close>

definition client :: GoTrue where
  "client =
     \<lparr>currentUser = None,
      signup = (\<lambda>em pw data. Inr alice),
      login = (\<lambda>em pw remember. Inr alice),
      requestRecovery = (\<lambda>em. Inr ()),
      recover = (\<lambda>tok remember. Inr alice),
      confirm = (\<lambda>tok. Inr alice),
      createUser = (\<lambda>ps. Inr alice),
      fetchSettings = Inr (defaultSettings\<lparr>disable_signup := True\<rparr>),
      update = (\<lambda>u changes. Inr u),
      jwt = (\<lambda>u. Inr ''abc''),
      logout = (\<lambda>u. Inr ())\<rparr>"

definition offline :: GoTrue where
  "offline =
     \<lparr>currentUser = Some alice,
      signup = (\<lambda>em pw data. Inl (Rejection ''offline'')),
      login = (\<lambda>em pw remember. Inl (Rejection ''offline'')),
      requestRecovery = (\<lambda>em. Inl (Rejection ''offline'')),
      recover = (\<lambda>tok remember. Inl (Rejection ''offline'')),
      confirm = (\<lambda>tok. Inl (Rejection ''offline'')),
      createUser = (\<lambda>ps. Inl (Rejection ''offline'')),
      fetchSettings = Inl (Rejection ''offline''),
      update = (\<lambda>u changes. Inl (Rejection ''offline'')),
      jwt = (\<lambda>u. Inl (Rejection ''offline'')),
      logout = (\<lambda>u. Inl (Rejection ''offline''))\<rparr>"

definition network :: Network where
  "network = \<lparr>fetch = (\<lambda>endpoint r. Inr ''{}''), json = (\<lambda>res. Inr res)\<rparr>"

definition home :: location where
  "home = \<lparr>pathname = ''/'', query = [], fragment = []\<rparr>"

definition denied :: location where
  "denied =
     \<lparr>pathname = ''/'',
      query = [(''error'', ''access_denied''), (''error_description'', ''403'')],
      fragment = []\<rparr>"

definition confirming :: location where
  "confirming =
     \<lparr>pathname = ''/'', query = [],
      fragment = [(''type'', ''confirmation''), (''access_token'', ''tok'')]\<rparr>"

definition signed_out :: world where
  "signed_out = first_render client home"

definition signed_in :: world where
  "signed_in = first_render offline home"

definition no_options :: request where
  "no_options = \<lparr>req_method = None, headers = None, body = None\<rparr>"

definition own_headers :: request where
  "own_headers = \<lparr>req_method = None, headers = Some [(''X-Trace'', ''1'')], body = Some ''{}''\<rparr>"

section \<open>Properties\<close>

subsection \<open>Facts about the state setter and the operations that use it\<close>

lemma underscore_setUser_effect:
  "underscore_setUser u w = (u, w\<lparr>user := u, trace := trace w @ [AuthChange u]\<rparr>)"
  by (simp add: underscore_setUser_def setUser_def emit_def)

lemma signupUser_resolved:
  "signup gt em pw data = Inr u \<Longrightarrow>
   signupUser gt em pw data w =
     (Resolved (Some u),
      w\<lparr>user := Some u,
        trace := trace w @ [Backend (Signup em pw data), AuthChange (Some u)]\<rparr>)"
  by (simp add: signupUser_def then_do_def underscore_setUser_effect emit_def)

lemma loginUser_resolved:
  "login gt em pw remember = Inr u \<Longrightarrow>
   loginUser gt em pw remember w =
     (Resolved (Some u),
      w\<lparr>user := Some u,
        trace := trace w @ [Backend (Login em pw remember), AuthChange (Some u)]\<rparr>)"
  by (simp add: loginUser_def then_do_def underscore_setUser_effect emit_def)

lemma updateUser_resolved:
  "user w = Some u \<Longrightarrow> update gt u changes = Inr u' \<Longrightarrow>
   updateUser gt changes w =
     (Resolved (Some u'),
      w\<lparr>user := Some u',
        trace := trace w @ [Backend (Update u changes), AuthChange (Some u')]\<rparr>)"
  by (simp add: updateUser_def then_do_def underscore_setUser_effect emit_def)

lemma logoutUser_resolved:
  "user w = Some u \<Longrightarrow> logout gt u = Inr () \<Longrightarrow>
   logoutUser gt w =
     (Resolved None,
      w\<lparr>user := None, trace := trace w @ [Backend (Logout u), AuthChange None]\<rparr>)"
  by (simp add: logoutUser_def then_do_def underscore_setUser_effect emit_def)

lemma recoverAccount_resolved:
  "recover gt tok remember = Inr u \<Longrightarrow>
   recoverAccount gt tok remember w =
     (Resolved u, w\<lparr>trace := trace w @ [Backend (Recover tok remember)]\<rparr>)"
  by (simp add: recoverAccount_def then_do_def emit_def)

text \<open>
  C1. Every operation of the facade that changes the identity is to pass its result
  through \<^verbatim>\<open>_setUser\<close>, which sets the held user, calls the listener and returns the
  value. \<^verbatim>\<open>signupUser\<close>, \<^verbatim>\<open>loginUser\<close>, \<^verbatim>\<open>updateUser\<close> and \<^verbatim>\<open>logoutUser\<close> do
  (lemmas above); \<^verbatim>\<open>recoverAccount\<close> returns the promise of the client as it is.
  With a client whose \<^verbatim>\<open>recover\<close> resolves to a user, and nobody signed in, the user
  of the recovered account is returned, the held user stays absent and the listener is
  not called, so that \<^verbatim>\<open>updateUser\<close> still throws "no current user"; a login answered
  with the same user sets the held user and calls the listener once.
\<close>

theorem recoverAccount_bypasses_setter:
  "recoverAccount client ''tok'' (Some True) signed_out =
     (Resolved alice, signed_out\<lparr>trace := [Backend (Recover ''tok'' (Some True))]\<rparr>) \<and>
   user (snd (recoverAccount client ''tok'' (Some True) signed_out)) = None \<and>
   AuthChange (Some alice) \<notin> set (trace (snd (recoverAccount client ''tok'' (Some True) signed_out))) \<and>
   fst (updateUser client ''{}'' (snd (recoverAccount client ''tok'' (Some True) signed_out))) =
     Thrown (Error noUserFound) \<and>
   loginUser client ''alice@example.com'' ''pw'' True signed_out =
     (Resolved (Some alice),
      signed_out\<lparr>user := Some alice,
        trace := [Backend (Login ''alice@example.com'' ''pw'' True), AuthChange (Some alice)]\<rparr>)"
  by (simp add: recoverAccount_def loginUser_def updateUser_def then_do_def
        underscore_setUser_effect emit_def client_def signed_out_def first_render_def)

subsection \<open>Preconditions of the operations\<close>

text \<open>
  C2. For \<^verbatim>\<open>logoutUser\<close>, \<^verbatim>\<open>updateUser\<close> and \<^verbatim>\<open>getFreshJWT\<close>: with no current
  user the operation throws the "no current user" error, synchronously, and the world is
  as before, so no backend call was made; with a current user nothing is thrown and the
  first thing that happens is the call of the backend.
\<close>

theorem no_current_user_precondition:
  "(user w = None \<longrightarrow>
      logoutUser gt w = (Thrown (Error noUserFound), w) \<and>
      updateUser gt c w = (Thrown (Error noUserFound), w) \<and>
      getFreshJWT gt w = (Thrown (Error noUserFound), w)) \<and>
   (user w = Some u \<longrightarrow>
      (\<forall>e. fst (logoutUser gt w) \<noteq> Thrown e) \<and>
      (\<exists>es. trace (snd (logoutUser gt w)) = trace w @ Backend (Logout u) # es) \<and>
      (\<forall>e. fst (updateUser gt c w) \<noteq> Thrown e) \<and>
      (\<exists>es. trace (snd (updateUser gt c w)) = trace w @ Backend (Update u c) # es) \<and>
      (\<forall>e. fst (getFreshJWT gt w) \<noteq> Thrown e) \<and>
      (\<exists>es. trace (snd (getFreshJWT gt w)) = trace w @ Backend (Jwt u) # es))"
  by (auto simp: logoutUser_def updateUser_def getFreshJWT_def then_do_def emit_def
        underscore_setUser_def setUser_def split: sum.splits)

theorem no_current_user_precondition_witness:
  "user signed_out = None \<and>
   logoutUser client signed_out = (Thrown (Error noUserFound), signed_out) \<and>
   updateUser client ''{}'' signed_out = (Thrown (Error noUserFound), signed_out) \<and>
   getFreshJWT client signed_out = (Thrown (Error noUserFound), signed_out) \<and>
   user signed_in = Some alice \<and>
   fst (logoutUser client signed_in) = Resolved None \<and>
   trace (snd (logoutUser client signed_in)) = [Backend (Logout alice), AuthChange None] \<and>
   fst (getFreshJWT client signed_in) = Resolved ''abc''"
proof -
  have none: "user signed_out = None"
    by (simp add: signed_out_def first_render_def client_def)
  have some: "user signed_in = Some alice"
    by (simp add: signed_in_def first_render_def offline_def)
  have "logoutUser client signed_out = (Thrown (Error noUserFound), signed_out) \<and>
        updateUser client ''{}'' signed_out = (Thrown (Error noUserFound), signed_out) \<and>
        getFreshJWT client signed_out = (Thrown (Error noUserFound), signed_out)"
    using no_current_user_precondition [of signed_out client "''{}''" alice] none by simp
  moreover have "\<forall>e. fst (logoutUser client signed_in) \<noteq> Thrown e"
    using no_current_user_precondition [of signed_in client "''{}''" alice] some by simp
  moreover have "fst (logoutUser client signed_in) = Resolved None"
    using some by (simp add: logoutUser_def then_do_def underscore_setUser_effect client_def)
  moreover have "trace (snd (logoutUser client signed_in)) =
                   [Backend (Logout alice), AuthChange None]"
    using some
    by (simp add: logoutUser_def then_do_def underscore_setUser_effect client_def emit_def
          signed_in_def first_render_def)
  moreover have "fst (getFreshJWT client signed_in) = Resolved ''abc''"
    using some by (simp add: getFreshJWT_def then_do_def client_def)
  ultimately show ?thesis using none some by simp
qed

text \<open>
  C4. With a current user, \<^verbatim>\<open>logoutUser\<close> calls the backend first. When that call
  resolves, the held user becomes absent and the listener is called once, with the
  absent value, after the backend call; when it rejects, the held user stays and the
  listener is not called: nothing is cleared before the backend has answered.
\<close>

theorem logout_clears_after_backend:
  "user w = Some u \<Longrightarrow>
     (logout gt u = Inr () \<longrightarrow>
        logoutUser gt w =
          (Resolved None,
           w\<lparr>user := None, trace := trace w @ [Backend (Logout u), AuthChange None]\<rparr>)) \<and>
     (\<forall>e. logout gt u = Inl e \<longrightarrow>
        logoutUser gt w = (Rejected e, w\<lparr>trace := trace w @ [Backend (Logout u)]\<rparr>))"
  by (auto simp: logoutUser_def then_do_def emit_def underscore_setUser_def setUser_def)

theorem logout_clears_after_backend_witness:
  "user signed_in = Some alice \<and> logout client alice = Inr () \<and>
   logoutUser client signed_in =
     (Resolved None,
      signed_in\<lparr>user := None,
        trace := trace signed_in @ [Backend (Logout alice), AuthChange None]\<rparr>) \<and>
   logout offline alice = Inl (Rejection ''offline'') \<and>
   logoutUser offline signed_in =
     (Rejected (Rejection ''offline''),
      signed_in\<lparr>trace := trace signed_in @ [Backend (Logout alice)]\<rparr>)"
proof -
  have some: "user signed_in = Some alice"
    by (simp add: signed_in_def first_render_def offline_def)
  have ok: "logout client alice = Inr ()"
    by (simp add: client_def)
  have ko: "logout offline alice = Inl (Rejection ''offline'')"
    by (simp add: offline_def)
  show ?thesis
    using logout_clears_after_backend [OF some, of client]
      logout_clears_after_backend [OF some, of offline] some ok ko
    by simp
qed

subsection \<open>The derived flags\<close>

text \<open>
  C10. In every state of the hook, \<^verbatim>\<open>isLoggedIn\<close> holds exactly when a current user
  is set, and \<^verbatim>\<open>isConfirmedUser\<close> exactly when a current user is set whose
  \<^verbatim>\<open>confirmed_at\<close> is there, a timestamp being a non-empty string. Both are values
  computed from the stored user alone: they return no world.
\<close>

theorem derived_flags:
  "isLoggedIn w = (\<exists>u. user w = Some u) \<and>
   isConfirmedUser w =
     (\<exists>u t. user w = Some u \<and> confirmed_at u = Some t \<and> t \<noteq> [])"
  by (auto simp: isLoggedIn_def isConfirmedUser_def truthy_def split: option.splits)

subsection \<open>Authenticated fetch\<close>

lemma genericAuthedFetch_no_token:
  "live_token usr = None \<Longrightarrow>
   genericAuthedFetch net usr meth endpoint obj w = (Thrown (Error noTokenFound), w)"
  by (auto simp: live_token_def genericAuthedFetch_def split: option.splits if_splits)

lemma genericAuthedFetch_token:
  "live_token usr = Some tok \<Longrightarrow>
   snd (genericAuthedFetch net usr meth endpoint obj w) =
     emit (NetworkFetch endpoint (finalObj tok meth obj)) w \<and>
   (\<forall>e. fst (genericAuthedFetch net usr meth endpoint obj w) \<noteq> Thrown e)"
  by (auto simp: live_token_def genericAuthedFetch_def split: option.splits if_splits sum.splits)

lemma finalObj_headers:
  "headers (finalObj tok meth obj) =
     (case headers obj of
        None \<Rightarrow> Some [(''Accept'', ''application/json''), (''Content-Type'', ''application/json''),
                       (''Authorization'', ''Bearer '' @ tok)]
      | Some h \<Rightarrow> Some h)"
  by (simp add: finalObj_def Object_assign_def defaultObj_def split: option.splits)

text \<open>
  C3, as stated, fails: a user with a live access token is set (and was set in the first
  render), the options carry headers of their own, and the request that reaches the
  network has neither the bearer \<^verbatim>\<open>Authorization\<close> header nor the JSON content type,
  because \<^verbatim>\<open>Object.assign\<close> replaces the default \<^verbatim>\<open>headers\<close> object whole.
\<close>

theorem authedFetch_own_headers_counterexample:
  "live_token (user signed_in) = Some ''abc'' \<and>
   live_token (first_user signed_in) = Some ''abc'' \<and>
   authedFetch_post network ''/api'' own_headers signed_in =
     (Resolved (Response ''{}''),
      signed_in\<lparr>trace :=
        [NetworkFetch ''/api''
           \<lparr>req_method = Some ''POST'', headers = Some [(''X-Trace'', ''1'')],
            body = Some ''{}''\<rparr>]\<rparr>) \<and>
   header \<lparr>req_method = Some ''POST'', headers = Some [(''X-Trace'', ''1'')], body = Some ''{}''\<rparr>
     ''Authorization'' = None \<and>
   header \<lparr>req_method = Some ''POST'', headers = Some [(''X-Trace'', ''1'')], body = Some ''{}''\<rparr>
     ''Content-Type'' = None"
  by (simp add: authedFetch_post_def genericAuthedFetch_def finalObj_def Object_assign_def
        defaultObj_def header_def own_headers_def network_def signed_in_def first_render_def
        offline_def alice_def live_token_def emit_def)

text \<open>
  C3, amended. For every endpoint, method and options, a fetcher made by
  \<^verbatim>\<open>genericAuthedFetch\<close> over a user value \<open>usr\<close>: when \<open>usr\<close> is no user with a live
  access token it throws "no user token found" and the world is as before, so no network
  call was made; when it is, nothing is thrown and the request goes to the network
  fetch, with the bearer \<^verbatim>\<open>Authorization\<close> header and the JSON \<^verbatim>\<open>Content-Type\<close> and
  \<^verbatim>\<open>Accept\<close> when the options have no headers of their own, and with the headers of
  the options in their place when they have.
\<close>

theorem genericAuthedFetch_contract:
  "(live_token usr = None \<longrightarrow>
      genericAuthedFetch net usr meth endpoint obj w = (Thrown (Error noTokenFound), w)) \<and>
   (\<forall>tok. live_token usr = Some tok \<longrightarrow>
      snd (genericAuthedFetch net usr meth endpoint obj w) =
        emit (NetworkFetch endpoint (finalObj tok meth obj)) w \<and>
      (\<forall>e. fst (genericAuthedFetch net usr meth endpoint obj w) \<noteq> Thrown e) \<and>
      (headers obj = None \<longrightarrow>
         header (finalObj tok meth obj) ''Authorization'' = Some (''Bearer '' @ tok) \<and>
         header (finalObj tok meth obj) ''Content-Type'' = Some ''application/json'' \<and>
         header (finalObj tok meth obj) ''Accept'' = Some ''application/json'') \<and>
      (\<forall>h. headers obj = Some h \<longrightarrow> headers (finalObj tok meth obj) = Some h))"
  using genericAuthedFetch_no_token [of usr net meth endpoint obj w]
    genericAuthedFetch_token [of usr _ net meth endpoint obj w]
  by (auto simp: header_def finalObj_headers)

theorem genericAuthedFetch_contract_witness:
  "live_token None = None \<and>
   genericAuthedFetch network None ''GET'' ''/api'' no_options signed_in =
     (Thrown (Error noTokenFound), signed_in) \<and>
   live_token (Some alice) = Some ''abc'' \<and> headers no_options = None \<and>
   snd (genericAuthedFetch network (Some alice) ''GET'' ''/api'' no_options signed_in) =
     emit (NetworkFetch ''/api'' (finalObj ''abc'' ''GET'' no_options)) signed_in \<and>
   header (finalObj ''abc'' ''GET'' no_options) ''Authorization'' = Some ''Bearer abc'' \<and>
   header (finalObj ''abc'' ''GET'' no_options) ''Content-Type'' = Some ''application/json'' \<and>
   headers own_headers = Some [(''X-Trace'', ''1'')] \<and>
   headers (finalObj ''abc'' ''GET'' own_headers) = Some [(''X-Trace'', ''1'')]"
proof -
  have none: "live_token None = None"
    by (simp add: live_token_def)
  have some: "live_token (Some alice) = Some ''abc''"
    by (simp add: live_token_def alice_def)
  have plain: "headers no_options = None"
    by (simp add: no_options_def)
  have own: "headers own_headers = Some [(''X-Trace'', ''1'')]"
    by (simp add: own_headers_def)
  show ?thesis
    using genericAuthedFetch_contract [of None network "''GET''" "''/api''" no_options signed_in]
      genericAuthedFetch_contract [of "Some alice" network "''GET''" "''/api''" no_options signed_in]
      genericAuthedFetch_contract [of "Some alice" network "''GET''" "''/api''" own_headers signed_in]
      none some plain own
    by simp
qed

text \<open>
  The four fetchers of \<^verbatim>\<open>authedFetch\<close> keep the user of the first render: a sign-in
  after the first render does not reach them.
\<close>

lemma authedFetch_after_login:
  "user (snd (loginUser client ''alice@example.com'' ''pw'' True signed_out)) = Some alice \<and>
   fst (authedFetch_get network ''/api'' no_options
          (snd (loginUser client ''alice@example.com'' ''pw'' True signed_out))) =
     Thrown (Error noTokenFound)"
  by (simp add: loginUser_def then_do_def underscore_setUser_effect emit_def client_def
        signed_out_def first_render_def authedFetch_get_def genericAuthedFetch_def)

subsection \<open>Settings\<close>

lemma dispatch_cells:
  "settings (dispatch gt underscore_setUser loc p w) = settings w \<and>
   param (dispatch gt underscore_setUser loc p w) = param w \<and>
   page (dispatch gt underscore_setUser loc p w) = page w \<and>
   first_user (dispatch gt underscore_setUser loc p w) = first_user w"
  by (simp add: dispatch_def underscore_setUser_effect emit_def split: option.splits sum.splits)

lemma routes_effect_settings: "settings (routes_effect gt b w) = settings w"
  by (simp add: routes_effect_def runRoutes_def Let_def dispatch_cells)

text \<open>
  C8. The settings cell starts at \<^verbatim>\<open>defaultSettings\<close>: signup open, auto-confirm off,
  of the providers only email enabled; the routes effect leaves it there. When the one
  fetch of the settings resolves, the cell holds the fetched value, and nothing else of
  the state changes (the trace records the call).
\<close>

theorem settings_default_then_fetched:
  "settings (first_render gt loc) = defaultSettings \<and>
   settings (routes_effect gt b (first_render gt loc)) = defaultSettings \<and>
   disable_signup defaultSettings = False \<and> autoconfirm defaultSettings = False \<and>
   external defaultSettings =
     \<lparr>bitbucket = False, email = True, facebook = False,
      github = False, gitlab = False, google = False\<rparr> \<and>
   (\<forall>s. fetchSettings gt = Inr s \<longrightarrow>
      settings_effect gt w = w\<lparr>settings := s, trace := trace w @ [Backend FetchSettings]\<rparr> \<and>
      settings (useNetlifyIdentity gt b loc) = s)"
  by (simp add: routes_effect_settings useNetlifyIdentity_def)
     (simp add: first_render_def defaultSettings_def settings_effect_def emit_def)

theorem settings_default_then_fetched_witness:
  "settings (first_render client home) = defaultSettings \<and>
   fetchSettings client = Inr (defaultSettings\<lparr>disable_signup := True\<rparr>) \<and>
   settings_effect client signed_out =
     signed_out\<lparr>settings := defaultSettings\<lparr>disable_signup := True\<rparr>,
       trace := trace signed_out @ [Backend FetchSettings]\<rparr> \<and>
   settings (useNetlifyIdentity client True home) = defaultSettings\<lparr>disable_signup := True\<rparr>"
proof -
  have f: "fetchSettings client = Inr (defaultSettings\<lparr>disable_signup := True\<rparr>)"
    by (simp add: client_def)
  show ?thesis
    using settings_default_then_fetched [of client home True signed_out] f by simp
qed

subsection \<open>The parser and the router\<close>

lemma map_filter_empty: "(List.map_filter f xs = []) = (\<forall>x \<in> set xs. f x = None)"
  by (induction xs) (auto simp: List.map_filter_def)

lemma first_flow_None:
  "(first_flow ps = None) =
     (\<forall>kv \<in> set ps. fst kv = ''type'' \<longrightarrow> flow_of_name (snd kv) = None)"
proof -
  have "(first_flow ps = None) =
          (List.map_filter (\<lambda>(k, v). if k = ''type'' then flow_of_name v else None) ps = [])"
    by (simp add: first_flow_def split: list.splits)
  then show ?thesis
    by (auto simp: map_filter_empty split: if_splits)
qed

lemma parse_location_no_marker:
  assumes "\<not> flow_marker loc" and "\<not> error_marker loc"
  shows "parse_location loc = defaultParam"
proof (cases "first_flow (fragment loc)")
  case None
  with assms(2) show ?thesis by (simp add: parse_location_def)
next
  case (Some t)
  then have "\<exists>kv \<in> set (fragment loc). fst kv = ''type'' \<and> flow_of_name (snd kv) \<noteq> None"
    using first_flow_None [of "fragment loc"] by auto
  with assms(1) have "\<forall>kv \<in> set (fragment loc). fst kv \<noteq> ''access_token''"
    by (auto simp: flow_marker_def)
  then have "map_of (fragment loc) ''access_token'' = None"
    by (force simp: map_of_eq_None_iff)
  with assms(2) Some show ?thesis by (simp add: parse_location_def)
qed

lemma parse_location_error:
  "error_marker loc \<Longrightarrow>
   parse_location loc =
     \<lparr>token = None, type = None, error = Some access_denied, status = Some 403\<rparr>"
  by (simp add: parse_location_def defaultParam_def)


lemma dispatch_no_type: "type p = None \<Longrightarrow> dispatch gt cb loc p w = w"
  by (simp add: dispatch_def)

lemma runRoutes_no_marker:
  assumes "\<not> flow_marker (page w)" and "\<not> error_marker (page w)"
  shows "runRoutes gt cb w = (defaultParam, w)"
proof -
  have p: "parse_location (page w) = defaultParam"
    using assms by (rule parse_location_no_marker)
  have "type defaultParam = None" and "error defaultParam = None"
    by (simp_all add: defaultParam_def)
  then show ?thesis
    by (simp add: runRoutes_def Let_def p dispatch_no_type strip_consumed_def)
qed

lemma settings_effect_param: "param (settings_effect gt w) = param w"
  by (simp add: settings_effect_def emit_def split: sum.splits)

text \<open>
  C6. For every location with no recognised marker (no flow marker in the fragment, no
  access-denied marker in the query) the parser returns the default \<^verbatim>\<open>TokenParam\<close>,
  with \<^verbatim>\<open>type\<close> and \<^verbatim>\<open>token\<close> undefined; the routes effect of the hook then leaves
  the whole state as it was, and the stored \<^verbatim>\<open>param\<close> of the mounted hook is the
  default.
\<close>

theorem no_marker_default_param:
  assumes "\<not> flow_marker loc" and "\<not> error_marker loc"
  shows "parse_location loc = defaultParam \<and>
         type (parse_location loc) = None \<and> token (parse_location loc) = None \<and>
         routes_effect gt b (first_render gt loc) = first_render gt loc \<and>
         param (useNetlifyIdentity gt b loc) = defaultParam"
proof -
  have pg: "page (first_render gt loc) = loc"
    by (simp add: first_render_def)
  have r: "runRoutes gt underscore_setUser (first_render gt loc) =
             (defaultParam, first_render gt loc)"
    using assms by (simp add: runRoutes_no_marker pg)
  have e: "routes_effect gt b (first_render gt loc) = first_render gt loc"
    by (simp add: routes_effect_def r) (simp add: defaultParam_def truthy_def)
  have "param (first_render gt loc) = defaultParam"
    by (simp add: first_render_def)
  then have "param (useNetlifyIdentity gt b loc) = defaultParam"
    by (simp add: useNetlifyIdentity_def settings_effect_param e)
  with assms e show ?thesis
    by (simp add: parse_location_no_marker) (simp add: defaultParam_def)
qed

theorem no_marker_default_param_witness:
  "\<not> flow_marker home \<and> \<not> error_marker home \<and>
   parse_location home = defaultParam \<and>
   routes_effect client True (first_render client home) = first_render client home \<and>
   param (useNetlifyIdentity client True home) = defaultParam"
proof -
  have f: "\<not> flow_marker home"
    by (simp add: flow_marker_def home_def)
  have e: "\<not> error_marker home"
    by (simp add: error_marker_def home_def)
  show ?thesis
    using no_marker_default_param [OF f e, of client True] f e by simp
qed

text \<open>
  C7. For every location whose query carries \<^verbatim>\<open>error=access_denied\<close> (with or without
  a description) the parser returns a \<^verbatim>\<open>TokenParam\<close> with \<^verbatim>\<open>type\<close> and \<^verbatim>\<open>token\<close>
  undefined, \<^verbatim>\<open>error\<close> "access_denied" and \<^verbatim>\<open>status\<close> 403; the router returns it and,
  whatever the callback, calls nothing: the trace and the held user are as before.
\<close>

theorem access_denied_param:
  assumes "error_marker (page w)"
  shows "parse_location (page w) =
           \<lparr>token = None, type = None, error = Some access_denied, status = Some 403\<rparr> \<and>
         fst (runRoutes gt cb w) =
           \<lparr>token = None, type = None, error = Some access_denied, status = Some 403\<rparr> \<and>
         trace (snd (runRoutes gt cb w)) = trace w \<and>
         user (snd (runRoutes gt cb w)) = user w"
  using assms
  by (simp add: runRoutes_def Let_def parse_location_error dispatch_no_type)

theorem access_denied_param_witness:
  "error_marker (page (first_render client denied)) \<and>
   fst (runRoutes client underscore_setUser (first_render client denied)) =
     \<lparr>token = None, type = None, error = Some access_denied, status = Some 403\<rparr> \<and>
   trace (snd (runRoutes client underscore_setUser (first_render client denied))) = [] \<and>
   user (snd (runRoutes client underscore_setUser (first_render client denied))) = None"
proof -
  have m: "error_marker (page (first_render client denied))"
    by (simp add: error_marker_def first_render_def denied_def)
  have "trace (first_render client denied) = []" and "user (first_render client denied) = None"
    by (simp_all add: first_render_def client_def)
  then show ?thesis
    using access_denied_param [OF m, of client underscore_setUser] m by simp
qed















text \<open>
  The bound is met: on a location with a confirmation marker the first invocation calls
  the entry point once and the second not at all.
\<close>

lemma runRoutes_twice_on_confirming:
  "confirm_calls (snd (runRoutes client underscore_setUser (first_render client confirming))) = 1 \<and>
   confirm_calls
     (snd (runRoutes client underscore_setUser
        (snd (runRoutes client underscore_setUser (first_render client confirming))))) = 1"
  by (simp add: runRoutes_def Let_def parse_location_def error_marker_def first_flow_def
        List.map_filter_def flow_of_name_def dispatch_def strip_consumed_def defaultParam_def
        underscore_setUser_effect emit_def confirm_calls_def first_render_def confirming_def
        client_def)

subsection \<open>The matcher computes the meaning of a pattern\<close>

lemma step_set: "set (step P s) = {t. \<exists>x. s = x # t \<and> P x}"
  by (cases s) (auto simp: step_def)

lemma sem_suffix: "(s, t) \<in> sem r \<Longrightarrow> \<exists>p. s = p @ t"
proof (induction r arbitrary: s t)
  case (Seq a b)
  then obtain u where "(s, u) \<in> sem a" and "(u, t) \<in> sem b" by auto
  with Seq.IH obtain p q where "s = p @ u" and "u = q @ t" by blast
  then show ?case by simp
next
  case (Star a)
  from Star.prems have "(s, t) \<in> (sem a)\<^sup>*" by simp
  then show ?case
  proof (induction rule: rtrancl_induct)
    case base
    show ?case by simp
  next
    case (step u v)
    then obtain p q where "s = p @ u" and "u = q @ v" using Star.IH by blast
    then show ?case by simp
  qed
qed auto

lemma sem_same_length: "(s, t) \<in> sem r \<Longrightarrow> \<not> length t < length s \<Longrightarrow> t = s"
  using sem_suffix [of s t r] by auto

lemma star_unfold:
  assumes "(s, t) \<in> (sem a)\<^sup>*"
  shows "t = s \<or> (\<exists>u. (s, u) \<in> sem a \<and> length u < length s \<and> (u, t) \<in> (sem a)\<^sup>*)"
  using assms
proof (induction rule: converse_rtrancl_induct)
  case base
  show ?case by simp
next
  case (step x y)
  show ?case
  proof (cases "length y < length x")
    case True
    with step.hyps show ?thesis by blast
  next
    case False
    with step.hyps have "y = x" by (simp add: sem_same_length)
    with step.IH show ?thesis by simp
  qed
qed

lemma rmatch_Star:
  "set (rmatch (Star a) s) =
     insert s (\<Union>u \<in> {u \<in> set (rmatch a s). length u < length s}. set (rmatch (Star a) u))"
  by (subst rmatch.simps(8)) (auto simp del: rmatch.simps)

declare rmatch.simps(8) [simp del]

lemma rmatch_sem: "set (rmatch r s) = {t. (s, t) \<in> sem r}"
proof (induction r s rule: rmatch.induct)
  case (6 a b s)
  then show ?case by (auto simp: relcomp_unfold)
next
  case (8 a s)
  show ?case
  proof (intro set_eqI iffI)
    fix t
    assume "t \<in> set (rmatch (Star a) s)"
    then consider "t = s"
      | u where "u \<in> set (rmatch a s)" and "length u < length s" and "t \<in> set (rmatch (Star a) u)"
      by (subst (asm) rmatch_Star) auto
    then show "t \<in> {t. (s, t) \<in> sem (Star a)}"
    proof cases
      case 1
      then show ?thesis by simp
    next
      case 2
      then have "(s, u) \<in> sem a" and "(u, t) \<in> (sem a)\<^sup>*"
        using "8.IH" by auto
      then show ?thesis by (auto intro: converse_rtrancl_into_rtrancl)
    qed
  next
    fix t
    assume "t \<in> {t. (s, t) \<in> sem (Star a)}"
    then have "(s, t) \<in> (sem a)\<^sup>*" by simp
    then consider "t = s"
      | u where "(s, u) \<in> sem a" and "length u < length s" and "(u, t) \<in> (sem a)\<^sup>*"
      using star_unfold by blast
    then show "t \<in> set (rmatch (Star a) s)"
    proof cases
      case 1
      then show ?thesis by (subst rmatch_Star) simp
    next
      case 2
      then have "u \<in> set (rmatch a s)" using "8.IH"(1) by simp
      moreover from this 2 have "t \<in> set (rmatch (Star a) u)" using "8.IH"(2) by simp
      ultimately show ?thesis using 2(2) by (subst rmatch_Star) auto
    qed
  qed
next
  case (9 a s)
  then show ?case by (auto simp: Domain_iff)
qed (auto simp: step_set)

lemma test_sem: "test r s = ((s, []) \<in> sem r)"
  using rmatch_sem [of r s] by (auto simp: test_def)

subsection \<open>Setup of the provider\<close>

lemma localhost_rejected: "\<not> validateUrl (js ''http://localhost:8888'')"
  by code_simp

lemma localhost_absolute: "spec_absolute_URL (js ''http://localhost:8888'')"
  by code_simp

lemma netlify_accepted: "validateUrl (js ''https://example.netlify.com'')"
  by code_simp

text \<open>
  The pattern also turns down the addresses of private networks and takes a URL with no
  scheme, which is not absolute.
\<close>

lemma loopback_rejected: "\<not> validateUrl (js ''http://127.0.0.1:9999'')"
  by code_simp

lemma scheme_relative_accepted:
  "validateUrl (js ''//example.com'') \<and> \<not> spec_absolute_URL (js ''//example.com'')"
  by code_simp

text \<open>
  C9, as stated, fails: \<^verbatim>\<open>http://localhost:8888\<close> is a syntactically valid absolute URL,
  and the provider set up with it throws the initialization error, because the host
  part of the pattern wants a dotted name that ends in a label of two letters or more, or
  a public IPv4 address.
\<close>

theorem localhost_url_counterexample:
  "spec_absolute_URL (js ''http://localhost:8888'') \<and>
   IdentityContextProvider (\<lambda>api. client) (js ''http://localhost:8888'') home =
     Inl (InvalidURL (js ''http://localhost:8888''))"
  using localhost_rejected localhost_absolute
  by (simp add: IdentityContextProvider_def)

text \<open>
  C9, amended. For every base URL, setup of the provider succeeds exactly when the URL
  is not empty and matches the pattern of \<^verbatim>\<open>validateUrl\<close>, that is, the meaning of the
  pattern relates the URL to the empty rest; it then yields the state of the hook over a
  client made for \<^verbatim>\<open>url + "/.netlify/identity"\<close>. Any other URL makes setup throw the
  error that quotes the URL, and no state comes to exist.
\<close>

theorem provider_setup_iff_pattern:
  "(url \<noteq> [] \<and> (url, []) \<in> sem url_pattern \<longrightarrow>
      IdentityContextProvider new_GoTrue url loc =
        Inr (useNetlifyIdentity (new_GoTrue (url @ js ''/.netlify/identity'')) True loc)) \<and>
   (\<not> (url \<noteq> [] \<and> (url, []) \<in> sem url_pattern) \<longrightarrow>
      IdentityContextProvider new_GoTrue url loc = Inl (InvalidURL url))"
  by (simp add: IdentityContextProvider_def validateUrl_def test_sem)

theorem provider_setup_iff_pattern_witness:
  "js ''https://example.netlify.com'' \<noteq> [] \<and>
   (js ''https://example.netlify.com'', []) \<in> sem url_pattern \<and>
   IdentityContextProvider (\<lambda>api. client) (js ''https://example.netlify.com'') home =
     Inr (useNetlifyIdentity client True home) \<and>
   IdentityContextProvider (\<lambda>api. client) [] home = Inl (InvalidURL [])"
proof -
  have m: "(js ''https://example.netlify.com'', []) \<in> sem url_pattern"
    using netlify_accepted by (simp add: validateUrl_def test_sem)
  have n: "js ''https://example.netlify.com'' \<noteq> []"
    by (simp add: js_def)
  show ?thesis
    using provider_setup_iff_pattern [of "js ''https://example.netlify.com''" "\<lambda>api. client" home]
      provider_setup_iff_pattern [of "[]" "\<lambda>api. client" home] m n
    by simp
qed

end
